theory Spec2Isabelle
  imports Complex_Main "HOL-Library.Product_Lexorder" "HOL-Library.Word"
begin

section \<open>JavaScript values and string primitives used by the client\<close>

text \<open>
  The text the user types, and what is built from it (the question, the content of a
  message, an answer), is a JavaScript string: a list of 16-bit code units. \<open>js_string\<close>
  embeds a literal, one code unit per character.
\<close>

type_synonym code_unit = "16 word"

type_synonym jstring = "code_unit list"

definition js_string :: "string \<Rightarrow> jstring" where
  "js_string s = map of_char s"

text \<open>
  \<^verbatim>\<open>String.prototype.trim\<close> removes leading and trailing white space and line
  terminators. These are, as code units: TAB, LF, VT, FF, CR, SPACE, NO-BREAK SPACE
  (U+00A0), U+1680, U+2000 to U+200A, LINE SEPARATOR (U+2028), PARAGRAPH SEPARATOR (U+2029),
  U+202F, U+205F, U+3000 and the byte order mark U+FEFF.
\<close>

definition is_space :: "code_unit \<Rightarrow> bool" where
  "is_space c =
     (c \<in> set [0x0009, 0x000A, 0x000B, 0x000C, 0x000D, 0x0020, 0x00A0, 0x1680,
               0x2000, 0x2001, 0x2002, 0x2003, 0x2004, 0x2005, 0x2006, 0x2007, 0x2008,
               0x2009, 0x200A, 0x2028, 0x2029, 0x202F, 0x205F, 0x3000, 0xFEFF])"

definition trim :: "jstring \<Rightarrow> jstring" where
  "trim s = rev (dropWhile is_space (rev (dropWhile is_space s)))"

text \<open>
  File names, paths and the fixed texts of the document panel are written as \<open>string\<close>.
  \<^verbatim>\<open>toLowerCase\<close> and \<^verbatim>\<open>endsWith\<close>, which the panel applies to a file name, are
  modelled on the ASCII range: only \<open>A\<close>..\<open>Z\<close> have a lower-case form. No code unit outside
  that range lower-cases to one of \<open>.\<close>, \<open>p\<close>, \<open>d\<close>, \<open>f\<close>, so the extension test below agrees
  with the JavaScript one on every file name.
\<close>

definition char_toLowerCase :: "char \<Rightarrow> char" where
  "char_toLowerCase c =
     (let n = (of_char c :: nat)
      in if 65 \<le> n \<and> n \<le> 90 then char_of (n + 32) else c)"

definition toLowerCase :: "string \<Rightarrow> string" where
  "toLowerCase s = map char_toLowerCase s"

definition endsWith :: "string \<Rightarrow> string \<Rightarrow> bool" where
  "endsWith s suf = (length suf \<le> length s \<and> drop (length s - length suf) s = suf)"

text \<open>
  A value that the code only stores, forwards and tests for truthiness: the session id.
  \<^verbatim>\<open>if (sessionId)\<close> is JavaScript truthiness, so \<^verbatim>\<open>null\<close>, \<^verbatim>\<open>undefined\<close>,
  \<^verbatim>\<open>0\<close> and the empty string all take the else branch.
\<close>

datatype jsval = JNull | JUndefined | JNum int | JStr string

fun truthy :: "jsval \<Rightarrow> bool" where
  "truthy JNull = False"
| "truthy JUndefined = False"
| "truthy (JNum n) = (n \<noteq> 0)"
| "truthy (JStr s) = (s \<noteq> [])"

text \<open>A rejected promise: what an awaited call throws.\<close>

datatype api_error = Timeout | NetworkError | HttpError nat

section \<open>services/api.js: the query call\<close>

text \<open>
  The JSON body of \<^verbatim>\<open>POST /query\<close>. A key that the client does not set is \<open>None\<close>.
\<close>

record query_payload =
  question :: jstring
  session_id :: "jsval option"
  top_k :: "int option"

record source =
  page_number :: int
  relevance_score :: rat
  source_content :: jstring

record response =
  answer :: jstring
  response_session_id :: jsval
  response_sources :: "source list"

text \<open>
  \<^verbatim>\<open>
  export async function askQuestion(question, sessionId = null) {
    const payload = { question };
    if (sessionId) { payload.session_id = sessionId; }
    const response = await api.post('/query/', payload);
    return response.data;
  }
  \<close>
  The payload the function builds; the awaited answer is supplied by the environment.
\<close>

definition askQuestion_payload :: "jstring \<Rightarrow> jsval \<Rightarrow> query_payload" where
  "askQuestion_payload q sessionId =
     (if truthy sessionId
      then \<lparr>question = q, session_id = Some sessionId, top_k = None\<rparr>
      else \<lparr>question = q, session_id = None, top_k = None\<rparr>)"

section \<open>components/ChatPanel.js\<close>

datatype role = User | Assistant

text \<open>
  A message object of the \<^verbatim>\<open>messages\<close> state. The keys \<^verbatim>\<open>sources\<close> and
  \<^verbatim>\<open>error\<close> are optional in the source; an absent \<^verbatim>\<open>sources\<close> is \<open>None\<close>, an absent
  \<^verbatim>\<open>error\<close> reads as falsy and is \<open>False\<close>.
\<close>

record message =
  role :: role
  content :: jstring
  sources :: "source list option"
  error :: bool

record chat_state =
  messages :: "message list"
  input :: jstring
  loading :: bool
  sessionId :: jsval

definition chat_init :: chat_state where
  "chat_init = \<lparr>messages = [], input = [], loading = False, sessionId = JNull\<rparr>"

definition user_message :: "jstring \<Rightarrow> message" where
  "user_message q = \<lparr>role = User, content = q, sources = None, error = False\<rparr>"

definition assistant_message :: "response \<Rightarrow> message" where
  "assistant_message r =
     \<lparr>role = Assistant, content = answer r, sources = Some (response_sources r), error = False\<rparr>"

definition error_message :: message where
  "error_message =
     \<lparr>role = Assistant,
      content =
        js_string ''Sorry, I encountered an error processing your question. Please try again.'',
      sources = None, error = True\<rparr>"

text \<open>
  \<^verbatim>\<open>handleSubmit\<close> up to its \<^verbatim>\<open>await\<close>: the guard, the three state updates, and
  the request that is sent (\<open>None\<close> when the handler returned at the guard).
\<close>

definition handleSubmit_begin :: "chat_state \<Rightarrow> chat_state \<times> query_payload option" where
  "handleSubmit_begin st =
     (if trim (input st) = [] \<or> loading st then (st, None)
      else
        let q = trim (input st)
        in (st\<lparr>input := [], loading := True, messages := messages st @ [user_message q]\<rparr>,
            Some (askQuestion_payload q (sessionId st))))"

text \<open>
  \<^verbatim>\<open>handleSubmit\<close> after its \<^verbatim>\<open>await\<close>: the \<^verbatim>\<open>try\<close> body on a fulfilled
  promise, the \<^verbatim>\<open>catch\<close> body on a rejected one, then \<^verbatim>\<open>finally\<close>. Both updates of
  \<^verbatim>\<open>messages\<close> are functional updates, so they append to the list as it is then.
\<close>

definition handleSubmit_resume :: "api_error + response \<Rightarrow> chat_state \<Rightarrow> chat_state" where
  "handleSubmit_resume outcome st =
     (case outcome of
        Inr r \<Rightarrow>
          st\<lparr>sessionId := response_session_id r,
             messages := messages st @ [assistant_message r],
             loading := False\<rparr>
      | Inl err \<Rightarrow>
          st\<lparr>messages := messages st @ [error_message], loading := False\<rparr>)"

text \<open>
  One whole run of the handler, nothing else happening while the request is in flight.
  \<open>ask\<close> is the service's answer to the request; the second component lists the
  requests issued.
\<close>

definition handleSubmit ::
  "(query_payload \<Rightarrow> api_error + response) \<Rightarrow> chat_state \<Rightarrow> chat_state \<times> query_payload list" where
  "handleSubmit ask st =
     (case handleSubmit_begin st of
        (st1, None) \<Rightarrow> (st1, [])
      | (st1, Some p) \<Rightarrow> (handleSubmit_resume (ask p) st1, [p]))"

definition handleNewChat :: "chat_state \<Rightarrow> chat_state" where
  "handleNewChat st = st\<lparr>messages := [], sessionId := JNull\<rparr>"

text \<open>\<^verbatim>\<open>onChange={(e) => setInput(e.target.value)}\<close>\<close>

definition setInput :: "jstring \<Rightarrow> chat_state \<Rightarrow> chat_state" where
  "setInput v st = st\<lparr>input := v\<rparr>"

text \<open>
  The handler is asynchronous: between its two halves other handlers of the component can
  run. A configuration holds the component state, the request in flight (at most one,
  since \<^verbatim>\<open>loading\<close> guards the handler) and the payloads sent so far. The New Chat
  button carries no \<^verbatim>\<open>disabled\<close> attribute, so \<open>NewChat\<close> is possible in every state.
\<close>

datatype chat_event = Change jstring | Submit | NewChat | Settle "api_error + response"

record chat_sys =
  panel :: chat_state
  in_flight :: "query_payload option"
  sent :: "query_payload list"

definition chat_sys_init :: chat_sys where
  "chat_sys_init = \<lparr>panel = chat_init, in_flight = None, sent = []\<rparr>"

fun chat_step :: "chat_event \<Rightarrow> chat_sys \<Rightarrow> chat_sys" where
  "chat_step (Change v) s = s\<lparr>panel := setInput v (panel s)\<rparr>"
| "chat_step Submit s =
     (case handleSubmit_begin (panel s) of
        (st, None) \<Rightarrow> s\<lparr>panel := st\<rparr>
      | (st, Some p) \<Rightarrow> s\<lparr>panel := st, in_flight := Some p, sent := sent s @ [p]\<rparr>)"
| "chat_step NewChat s = s\<lparr>panel := handleNewChat (panel s)\<rparr>"
| "chat_step (Settle outcome) s =
     (case in_flight s of
        None \<Rightarrow> s
      | Some p \<Rightarrow> s\<lparr>panel := handleSubmit_resume outcome (panel s), in_flight := None\<rparr>)"

definition chat_run :: "chat_event list \<Rightarrow> chat_sys \<Rightarrow> chat_sys" where
  "chat_run evs s = fold chat_step evs s"

section \<open>App.js and components/StatusBar.js: the health state\<close>

text \<open>
  The body of \<^verbatim>\<open>GET /health\<close> as the interface table types it. The fallback object of
  \<^verbatim>\<open>App\<close> has no \<^verbatim>\<open>available_models\<close> key, hence the option.
\<close>

record health =
  status :: string
  ollama_available :: bool
  available_models :: "string list option"

text \<open>
  A settled promise together with the state its callbacks have written:
  \<^verbatim>\<open>p.then(f)\<close> runs \<open>f\<close> on a fulfilled promise and passes a rejection on;
  \<^verbatim>\<open>p.catch(g)\<close> runs \<open>g\<close> on a rejected promise and is fulfilled afterwards.
\<close>

definition promise_then ::
  "('a \<Rightarrow> 's \<Rightarrow> 's) \<Rightarrow> ('e + 'a) \<times> 's \<Rightarrow> ('e + unit) \<times> 's" where
  "promise_then f p =
     (case p of (Inr v, s) \<Rightarrow> (Inr (), f v s) | (Inl e, s) \<Rightarrow> (Inl e, s))"

definition promise_catch ::
  "('e \<Rightarrow> 's \<Rightarrow> 's) \<Rightarrow> ('e + unit) \<times> 's \<Rightarrow> ('e + unit) \<times> 's" where
  "promise_catch g p =
     (case p of (Inl e, s) \<Rightarrow> (Inr (), g e s) | (Inr v, s) \<Rightarrow> (Inr v, s))"

definition setHealth :: "health \<Rightarrow> health option \<Rightarrow> health option" where
  "setHealth h old = Some h"

definition health_fallback :: health where
  "health_fallback = \<lparr>status = ''error'', ollama_available = False, available_models = None\<rparr>"

text \<open>
  \<^verbatim>\<open>
  useEffect(() => {
    checkHealth()
      .then(setHealth)
      .catch(() => setHealth({ status: 'error', ollama_available: false }));
  }, []);
  \<close>
  \<open>outcome\<close> is what \<^verbatim>\<open>checkHealth()\<close> settles to; the result is the settled chain and
  the \<^verbatim>\<open>health\<close> state.
\<close>

definition App_useEffect ::
  "api_error + health \<Rightarrow> health option \<Rightarrow> (api_error + unit) \<times> health option" where
  "App_useEffect outcome h =
     promise_catch (\<lambda>e. setHealth health_fallback) (promise_then setHealth (outcome, h))"

text \<open>\<^verbatim>\<open>const ollamaStatus = health?.ollama_available;\<close>, read for its truthiness.\<close>

definition ollamaStatus :: "health option \<Rightarrow> bool" where
  "ollamaStatus h = (case h of None \<Rightarrow> False | Some v \<Rightarrow> ollama_available v)"

section \<open>components/DocumentPanel.js\<close>

text \<open>A \<^verbatim>\<open>File\<close> object: its name and its size in bytes.\<close>

record File =
  name :: string
  byte_size :: nat

datatype 'f doc_request = UploadDocument 'f | ListDocuments

text \<open>
  The service behind \<^verbatim>\<open>uploadDocument\<close> and \<^verbatim>\<open>listDocuments\<close> is a parameter: any
  pair of functions from the service's state to an outcome and a new state.
\<close>

record ('b, 'd) backend =
  post_document :: "File \<Rightarrow> 'b \<Rightarrow> (api_error + 'd) \<times> 'b"
  get_documents :: "'b \<Rightarrow> (api_error + 'd list) \<times> 'b"

text \<open>
  The component's state (\<open>documents\<close> is the prop written through \<^verbatim>\<open>setDocuments\<close>;
  \<open>panel_error\<close> is the state variable \<^verbatim>\<open>error\<close>), the state of the service, and the
  requests issued so far.
\<close>

record ('b, 'd) doc_sys =
  documents :: "'d list"
  uploading :: bool
  panel_error :: "string option"
  server :: 'b
  requests :: "File doc_request list"

definition is_pdf_name :: "string \<Rightarrow> bool" where
  "is_pdf_name n = endsWith (toLowerCase n) ''.pdf''"

definition fetchDocuments :: "('b, 'd) backend \<Rightarrow> ('b, 'd) doc_sys \<Rightarrow> ('b, 'd) doc_sys" where
  "fetchDocuments srv s =
     (case get_documents srv (server s) of
        (Inr docs, b) \<Rightarrow>
          s\<lparr>documents := docs, server := b, requests := requests s @ [ListDocuments]\<rparr>
      | (Inl e, b) \<Rightarrow>
          s\<lparr>panel_error := Some ''Failed to load documents'', server := b,
            requests := requests s @ [ListDocuments]\<rparr>)"

text \<open>The body of the \<^verbatim>\<open>for (const file of files)\<close> loop of \<^verbatim>\<open>handleUpload\<close>.\<close>

definition upload_body :: "('b, 'd) backend \<Rightarrow> File \<Rightarrow> ('b, 'd) doc_sys \<Rightarrow> ('b, 'd) doc_sys" where
  "upload_body srv f s =
     (if \<not> is_pdf_name (name f)
      then s\<lparr>panel_error := Some ''Only PDF files are supported''\<rparr>
      else
        (case post_document srv f (server s) of
           (Inr d, b) \<Rightarrow> s\<lparr>server := b, requests := requests s @ [UploadDocument f]\<rparr>
         | (Inl e, b) \<Rightarrow>
             s\<lparr>panel_error := Some (''Failed to upload '' @ name f), server := b,
               requests := requests s @ [UploadDocument f]\<rparr>))"

fun upload_loop :: "('b, 'd) backend \<Rightarrow> File list \<Rightarrow> ('b, 'd) doc_sys \<Rightarrow> ('b, 'd) doc_sys" where
  "upload_loop srv [] s = s"
| "upload_loop srv (f # fs) s = upload_loop srv fs (upload_body srv f s)"

definition handleUpload :: "('b, 'd) backend \<Rightarrow> File list \<Rightarrow> ('b, 'd) doc_sys \<Rightarrow> ('b, 'd) doc_sys" where
  "handleUpload srv files s =
     fetchDocuments srv
       ((upload_loop srv files (s\<lparr>uploading := True, panel_error := None\<rparr>))\<lparr>uploading := False\<rparr>)"

text \<open>The component as mounted: \<^verbatim>\<open>useState(false)\<close>, \<^verbatim>\<open>useState(null)\<close>, no documents.\<close>

definition doc_sys_init :: "'b \<Rightarrow> ('b, 'd) doc_sys" where
  "doc_sys_init b =
     \<lparr>documents = [], uploading = False, panel_error = None, server = b, requests = []\<rparr>"

text \<open>
  A service for the examples: its state is the list of the files it has accepted, it times
  out on a file of more than 100 bytes, and it lists the files it holds.
\<close>

definition example_backend :: "(File list, File) backend" where
  "example_backend =
     \<lparr>post_document =
        (\<lambda>f b. if 100 < byte_size f then (Inl Timeout, b) else (Inr f, b @ [f])),
      get_documents = (\<lambda>b. (Inr b, b))\<rparr>"

section \<open>The upload endpoint of the service\<close>

text \<open>
  The service behind \<^verbatim>\<open>POST /documents\<close> is not part of the client sources. The
  definitions of this section follow the written specification of the ingestion pipeline
  and of the document lifecycle manager.
\<close>

text \<open>
  Modelled from the spec: the Document of the data model (id, original filename, byte size,
  page count, chunk count, status, created timestamp, optional error message) and the store
  of Document records, which are missing from the sources.
\<close>

datatype lifecycle = Pending | Processing | Completed | Failed

record document =
  doc_id :: nat
  original_filename :: string
  file_size :: nat
  page_count :: nat
  chunk_count :: nat
  doc_status :: lifecycle
  created_at :: nat
  doc_error_message :: "string option"

record doc_store =
  docs :: "document list"
  next_id :: nat
  clock :: nat

text \<open>
  Modelled from the spec: the configured maximum upload size, 50 MB. The unit is the one
  \<^verbatim>\<open>formatFileSize\<close> of the document panel displays: 1 MB is \<open>1024 * 1024\<close> bytes.
\<close>

definition max_upload_bytes :: nat where
  "max_upload_bytes = 50 * (1024 * 1024)"

text \<open>
  Modelled from the spec: \<^verbatim>\<open>createPending(filename, size) -> document_id\<close> of the
  document lifecycle manager, which is missing from the sources. The record is created with
  status pending and both counts 0.
\<close>

definition createPending :: "string \<Rightarrow> nat \<Rightarrow> doc_store \<Rightarrow> document \<times> doc_store" where
  "createPending filename sz st =
     (let d = \<lparr>doc_id = next_id st, original_filename = filename, file_size = sz,
                page_count = 0, chunk_count = 0, doc_status = Pending,
                created_at = clock st, doc_error_message = None\<rparr>
      in (d, st\<lparr>docs := docs st @ [d], next_id := Suc (next_id st), clock := Suc (clock st)\<rparr>))"

text \<open>
  Modelled from the spec: the upload operation of the service, which is missing from the
  sources. The extension must be \<^verbatim>\<open>.pdf\<close> and the size at most the configured maximum;
  a violation of either is rejected with a client error (status 400) before a Document
  record is created.
\<close>

definition upload_endpoint :: "nat \<Rightarrow> File \<Rightarrow> doc_store \<Rightarrow> (api_error + document) \<times> doc_store" where
  "upload_endpoint max_bytes f st =
     (if \<not> is_pdf_name (name f) \<or> max_bytes < byte_size f
      then (Inl (HttpError 400), st)
      else (case createPending (name f) (byte_size f) st of (d, st') \<Rightarrow> (Inr d, st')))"

text \<open>Modelled from the spec: \<^verbatim>\<open>GET /documents\<close>, the array of Document summaries.\<close>

definition list_endpoint :: "doc_store \<Rightarrow> (api_error + document list) \<times> doc_store" where
  "list_endpoint st = (Inr (docs st), st)"

text \<open>Modelled from the spec: the store of a service that holds no Document yet.\<close>

definition empty_store :: doc_store where
  "empty_store = \<lparr>docs = [], next_id = 0, clock = 0\<rparr>"

text \<open>
  Modelled from the spec: the service the document panel talks to, made of the two
  operations above with the maximum of 50 MB.
\<close>

definition spec_backend :: "(doc_store, document) backend" where
  "spec_backend =
     \<lparr>post_document = upload_endpoint max_upload_bytes, get_documents = list_endpoint\<rparr>"

text \<open>A client error is an HTTP status of the 4xx class.\<close>

definition is_client_error :: "api_error \<Rightarrow> bool" where
  "is_client_error e = (case e of HttpError c \<Rightarrow> 400 \<le> c \<and> c < 500 | _ \<Rightarrow> False)"

section \<open>The two client modules: src/api.js and src/services/api.js\<close>

datatype http_method = GET | POST | DELETE

datatype http_body = NoBody | FormData "(string \<times> File) list" | Json query_payload

text \<open>
  A request as the module issues it: the method, the base URL and the path joined to it,
  and the body.
\<close>

record http_request =
  http_method :: http_method
  base :: string
  path :: string
  body :: http_body

text \<open>src/api.js: \<^verbatim>\<open>const API_BASE = 'http://localhost:8000/api';\<close> and the object \<^verbatim>\<open>api\<close>.\<close>

definition api_API_BASE :: string where
  "api_API_BASE = ''http://localhost:8000/api''"

definition api_uploadDocument :: "File \<Rightarrow> http_request" where
  "api_uploadDocument f =
     \<lparr>http_method = POST, base = api_API_BASE, path = ''/documents/upload'',
      body = FormData [(''file'', f)]\<rparr>"

definition api_getDocuments :: http_request where
  "api_getDocuments =
     \<lparr>http_method = GET, base = api_API_BASE, path = ''/documents'', body = NoBody\<rparr>"

definition api_deleteDocument :: "string \<Rightarrow> http_request" where
  "api_deleteDocument docId =
     \<lparr>http_method = DELETE, base = api_API_BASE, path = ''/documents/'' @ docId, body = NoBody\<rparr>"

text \<open>
  \<^verbatim>\<open>async query(question, topK = 3)\<close>: the default applies when the caller passes no
  second argument (\<open>None\<close>).
\<close>

definition api_query :: "jstring \<Rightarrow> int option \<Rightarrow> http_request" where
  "api_query q topK =
     \<lparr>http_method = POST, base = api_API_BASE, path = ''/query'',
      body = Json \<lparr>question = q, session_id = None,
                   top_k = Some (case topK of None \<Rightarrow> 3 | Some k \<Rightarrow> k)\<rparr>\<rparr>"

definition api_healthCheck :: http_request where
  "api_healthCheck =
     \<lparr>http_method = GET, base = api_API_BASE, path = ''/health'', body = NoBody\<rparr>"

text \<open>
  src/services/api.js:
  \<^verbatim>\<open>const API_BASE = process.env.REACT_APP_API_URL || 'http://localhost:8000/api';\<close>
  The environment variable is a parameter; an unset or empty one gives the default.
\<close>

definition API_BASE :: "string option \<Rightarrow> string" where
  "API_BASE env =
     (case env of
        None \<Rightarrow> ''http://localhost:8000/api''
      | Some u \<Rightarrow> if u = [] then ''http://localhost:8000/api'' else u)"

definition checkHealth :: "string option \<Rightarrow> http_request" where
  "checkHealth env =
     \<lparr>http_method = GET, base = API_BASE env, path = ''/health/'', body = NoBody\<rparr>"

definition listDocuments :: "string option \<Rightarrow> http_request" where
  "listDocuments env =
     \<lparr>http_method = GET, base = API_BASE env, path = ''/documents/'', body = NoBody\<rparr>"

definition uploadDocument :: "string option \<Rightarrow> File \<Rightarrow> http_request" where
  "uploadDocument env f =
     \<lparr>http_method = POST, base = API_BASE env, path = ''/documents/'',
      body = FormData [(''file'', f)]\<rparr>"

definition deleteDocument :: "string option \<Rightarrow> string \<Rightarrow> http_request" where
  "deleteDocument env documentId =
     \<lparr>http_method = DELETE, base = API_BASE env, path = ''/documents/'' @ documentId @ ''/'',
      body = NoBody\<rparr>"

definition askQuestion :: "string option \<Rightarrow> jstring \<Rightarrow> jsval \<Rightarrow> http_request" where
  "askQuestion env q sid =
     \<lparr>http_method = POST, base = API_BASE env, path = ''/query/'',
      body = Json (askQuestion_payload q sid)\<rparr>"

text \<open>The operations that both modules implement, and the request each module issues.\<close>

datatype api_op = OpUpload File | OpList | OpDelete string | OpQuery jstring | OpHealth

fun api_request :: "api_op \<Rightarrow> http_request" where
  "api_request (OpUpload f) = api_uploadDocument f"
| "api_request OpList = api_getDocuments"
| "api_request (OpDelete i) = api_deleteDocument i"
| "api_request (OpQuery q) = api_query q None"
| "api_request OpHealth = api_healthCheck"

fun services_request :: "string option \<Rightarrow> api_op \<Rightarrow> http_request" where
  "services_request env (OpUpload f) = uploadDocument env f"
| "services_request env OpList = listDocuments env"
| "services_request env (OpDelete i) = deleteDocument env i"
| "services_request env (OpQuery q) = askQuestion env q JNull"
| "services_request env OpHealth = checkHealth env"

text \<open>
  Two paths name the same endpoint when they are equal once a trailing slash is dropped
  (the service's routes are written with it, the interface table without).
\<close>

definition strip_slash :: "string \<Rightarrow> string" where
  "strip_slash p = (if p \<noteq> [] \<and> last p = CHR ''/'' then butlast p else p)"

definition same_endpoint :: "http_request \<Rightarrow> http_request \<Rightarrow> bool" where
  "same_endpoint r1 r2 =
     (http_method r1 = http_method r2 \<and> strip_slash (path r1) = strip_slash (path r2))"

section \<open>Retrieval on the service's side\<close>

record chunk =
  chunk_id :: nat
  document_id :: nat
  chunk_page :: nat
  ordinal :: nat
  chunk_text :: string

text \<open>
  Modelled from the spec: \<^verbatim>\<open>search(query_vector, top_k)\<close> of the vector index, which is
  missing from the sources. It returns at most \<open>top_k\<close> results in descending similarity,
  ties broken by the lower chunk ordinal. \<open>sim\<close> is the similarity of a chunk to the query
  vector.
\<close>

definition search :: "(chunk \<Rightarrow> rat) \<Rightarrow> chunk list \<Rightarrow> int \<Rightarrow> (chunk \<times> rat) list" where
  "search sim index k =
     take (nat k) (map (\<lambda>c. (c, sim c)) (sort_key (\<lambda>c. (- sim c, ordinal c)) index))"

text \<open>
  Modelled from the spec: step (3) of the query orchestrator, which is missing from the
  sources: retrieve \<open>top_k\<close> (default 3) chunks via \<open>search\<close>.
\<close>

definition default_top_k :: int where
  "default_top_k = 3"

definition retrieve :: "(chunk \<Rightarrow> rat) \<Rightarrow> chunk list \<Rightarrow> query_payload \<Rightarrow> (chunk \<times> rat) list" where
  "retrieve sim index p =
     search sim index (case top_k p of None \<Rightarrow> default_top_k | Some k \<Rightarrow> k)"

section \<open>Properties of the chat panel\<close>

subsection \<open>Trimming\<close>

lemma trim_empty_iff: "trim s = [] \<longleftrightarrow> (\<forall>c \<in> set s. is_space c)"
proof -
  have "(\<forall>x \<in> set (dropWhile is_space s). is_space x) \<longleftrightarrow> dropWhile is_space s = []"
  proof
    assume all: "\<forall>x \<in> set (dropWhile is_space s). is_space x"
    show "dropWhile is_space s = []"
    proof (rule ccontr)
      assume ne: "dropWhile is_space s \<noteq> []"
      then have "\<not> is_space (hd (dropWhile is_space s))" by (rule hd_dropWhile)
      moreover from ne have "hd (dropWhile is_space s) \<in> set (dropWhile is_space s)" by simp
      ultimately show False using all by blast
    qed
  qed (auto dest: set_dropWhileD)
  then show ?thesis
    by (simp add: trim_def dropWhile_eq_Nil_conv)
qed

lemma trim_blank: "trim (js_string ''  '') = []"
  by (simp add: trim_def is_space_def js_string_def)

lemma trim_nbsp: "trim [0x00A0] = []"
  by (simp add: trim_def is_space_def)

lemma trim_hi: "trim (js_string '' hi '') = js_string ''hi''"
  by (simp add: trim_def is_space_def js_string_def)

lemma trim_nbsp_hi: "trim [0x00A0, 0x0068, 0x0069, 0x2003] = js_string ''hi''"
  by (simp add: trim_def is_space_def js_string_def)

lemma js_string_hi: "js_string ''hi'' \<noteq> []"
  by (simp add: js_string_def)

subsection \<open>The two halves of the handler\<close>

lemma handleSubmit_begin_guard:
  "trim (input st) = [] \<or> loading st \<Longrightarrow> handleSubmit_begin st = (st, None)"
  by (auto simp: handleSubmit_begin_def)

lemma handleSubmit_begin_send:
  "trim (input st) \<noteq> [] \<Longrightarrow> \<not> loading st \<Longrightarrow>
   handleSubmit_begin st =
     (st\<lparr>input := [], loading := True,
         messages := messages st @ [user_message (trim (input st))]\<rparr>,
      Some (askQuestion_payload (trim (input st)) (sessionId st)))"
  by (simp add: handleSubmit_begin_def Let_def)

lemma handleSubmit_resume_rejected:
  "handleSubmit_resume (Inl e) st =
     st\<lparr>messages := messages st @ [error_message], loading := False\<rparr>"
  by (simp add: handleSubmit_resume_def)

lemma handleSubmit_resume_fulfilled:
  "handleSubmit_resume (Inr r) st =
     st\<lparr>sessionId := response_session_id r,
        messages := messages st @ [assistant_message r], loading := False\<rparr>"
  by (simp add: handleSubmit_resume_def)

text \<open>
  C1: when the awaited query is rejected (timeout, unreachable service, request error), the
  run of the handler leaves the old messages followed by a user message whose content is the
  trimmed input and by the assistant message with the fixed apology and the error flag, and
  nothing else of the state changes but the cleared input: the session id is untouched and
  nothing of a response is stored. The user message is written before the request is
  awaited, and whatever the state is when the rejection arrives, exactly the fixed
  error-flagged message is appended to it.
\<close>

theorem failed_query_keeps_question_and_flags_error:
  assumes "trim (input st) \<noteq> []" and "\<not> loading st"
    and "ask (askQuestion_payload (trim (input st)) (sessionId st)) = Inl e"
  shows "handleSubmit ask st =
           (st\<lparr>input := [], loading := False,
               messages := messages st @
                 [\<lparr>role = User, content = trim (input st), sources = None, error = False\<rparr>,
                  \<lparr>role = Assistant,
                   content = js_string
                     ''Sorry, I encountered an error processing your question. Please try again.'',
                   sources = None, error = True\<rparr>]\<rparr>,
            [askQuestion_payload (trim (input st)) (sessionId st)])
       \<and> fst (handleSubmit_begin st) =
           st\<lparr>input := [], loading := True,
              messages := messages st @
                [\<lparr>role = User, content = trim (input st), sources = None, error = False\<rparr>]\<rparr>
       \<and> handleSubmit_resume (Inl e) st' =
           st'\<lparr>messages := messages st' @
                 [\<lparr>role = Assistant,
                   content = js_string
                     ''Sorry, I encountered an error processing your question. Please try again.'',
                   sources = None, error = True\<rparr>],
               loading := False\<rparr>"
  using assms
  by (simp add: handleSubmit_def handleSubmit_begin_send handleSubmit_resume_rejected
      error_message_def user_message_def)

theorem failed_query_keeps_question_and_flags_error_witness:
  "trim (input (chat_init\<lparr>input := [0x00A0, 0x0068, 0x0069, 0x2003]\<rparr>)) \<noteq> []
   \<and> \<not> loading (chat_init\<lparr>input := [0x00A0, 0x0068, 0x0069, 0x2003]\<rparr>)
   \<and> messages (fst (handleSubmit (\<lambda>p. Inl Timeout)
         (chat_init\<lparr>input := [0x00A0, 0x0068, 0x0069, 0x2003]\<rparr>)))
       = [\<lparr>role = User, content = js_string ''hi'', sources = None, error = False\<rparr>,
          \<lparr>role = Assistant,
           content = js_string
             ''Sorry, I encountered an error processing your question. Please try again.'',
           sources = None, error = True\<rparr>]"
proof -
  have h1: "trim (input (chat_init\<lparr>input := [0x00A0, 0x0068, 0x0069, 0x2003]\<rparr>)) \<noteq> []"
    by (simp add: trim_nbsp_hi js_string_hi)
  have h2: "\<not> loading (chat_init\<lparr>input := [0x00A0, 0x0068, 0x0069, 0x2003]\<rparr>)"
    by (simp add: chat_init_def)
  have h3: "(\<lambda>p. Inl Timeout)
      (askQuestion_payload (trim (input (chat_init\<lparr>input := [0x00A0, 0x0068, 0x0069, 0x2003]\<rparr>)))
        (sessionId (chat_init\<lparr>input := [0x00A0, 0x0068, 0x0069, 0x2003]\<rparr>))) = Inl Timeout"
    by simp
  from failed_query_keeps_question_and_flags_error [OF h1 h2 h3, of chat_init] h1 h2
  show ?thesis by (simp add: trim_nbsp_hi chat_init_def)
qed

text \<open>
  C4: a completed ask appends exactly two messages to the list, first the user message
  whose content is the (trimmed) question, then the assistant message whose content is the
  answer and whose sources are those of the response; the messages that were there before
  keep their content and their positions. Each half of the handler by itself only appends
  one message to the list it finds.
\<close>

theorem completed_ask_appends_user_then_assistant:
  assumes "trim (input st) \<noteq> []" and "\<not> loading st"
    and "ask (askQuestion_payload (trim (input st)) (sessionId st)) = Inr r"
  shows "handleSubmit ask st =
           (st\<lparr>input := [], loading := False, sessionId := response_session_id r,
               messages := messages st @
                 [\<lparr>role = User, content = trim (input st), sources = None, error = False\<rparr>,
                  \<lparr>role = Assistant, content = answer r,
                   sources = Some (response_sources r), error = False\<rparr>]\<rparr>,
            [askQuestion_payload (trim (input st)) (sessionId st)])
       \<and> messages (fst (handleSubmit_begin st)) =
           messages st @
             [\<lparr>role = User, content = trim (input st), sources = None, error = False\<rparr>]
       \<and> messages (handleSubmit_resume (Inr r) st') =
           messages st' @
             [\<lparr>role = Assistant, content = answer r,
               sources = Some (response_sources r), error = False\<rparr>]
       \<and> length (messages (fst (handleSubmit ask st))) = length (messages st) + 2
       \<and> (\<forall>i < length (messages st).
            messages (fst (handleSubmit ask st)) ! i = messages st ! i)"
  using assms
  by (simp add: handleSubmit_def handleSubmit_begin_send handleSubmit_resume_fulfilled
      user_message_def assistant_message_def nth_append)

theorem completed_ask_appends_user_then_assistant_witness:
  "trim (input \<lparr>messages = [user_message (js_string ''q0''), error_message],
                 input = [0x00A0, 0x0068, 0x0069, 0x2003],
                 loading = False, sessionId = JStr ''s1''\<rparr>) \<noteq> []
   \<and> messages (fst (handleSubmit
         (\<lambda>p. Inr \<lparr>answer = js_string ''a1'', response_session_id = JStr ''s1'',
                    response_sources = []\<rparr>)
         \<lparr>messages = [user_message (js_string ''q0''), error_message],
          input = [0x00A0, 0x0068, 0x0069, 0x2003],
          loading = False, sessionId = JStr ''s1''\<rparr>))
       = [user_message (js_string ''q0''), error_message,
          \<lparr>role = User, content = js_string ''hi'', sources = None, error = False\<rparr>,
          \<lparr>role = Assistant, content = js_string ''a1'', sources = Some [], error = False\<rparr>]"
  using completed_ask_appends_user_then_assistant
    [of "\<lparr>messages = [user_message (js_string ''q0''), error_message],
          input = [0x00A0, 0x0068, 0x0069, 0x2003],
          loading = False, sessionId = JStr ''s1''\<rparr>"
        "\<lambda>p. Inr \<lparr>answer = js_string ''a1'', response_session_id = JStr ''s1'',
                   response_sources = []\<rparr>"
        "\<lparr>answer = js_string ''a1'', response_session_id = JStr ''s1'', response_sources = []\<rparr>"
        chat_init]
  by (simp add: trim_nbsp_hi js_string_hi)

text \<open>
  C9: a submit whose input trims to the empty string, or that happens while a query is in
  flight, changes nothing: the handler returns the state as it was (message list and session
  id included) and issues no request.
\<close>

theorem blank_or_busy_submit_is_ignored:
  assumes "trim (input (panel s)) = [] \<or> loading (panel s)"
  shows "handleSubmit_begin (panel s) = (panel s, None)
       \<and> handleSubmit ask (panel s) = (panel s, [])
       \<and> chat_step Submit s = s"
  using assms by (simp add: handleSubmit_begin_guard handleSubmit_def)

theorem blank_or_busy_submit_is_ignored_witness:
  "(trim (input (panel (chat_sys_init\<lparr>panel := chat_init\<lparr>input := js_string ''  ''\<rparr>\<rparr>))) = []
      \<or> loading (panel (chat_sys_init\<lparr>panel := chat_init\<lparr>input := js_string ''  ''\<rparr>\<rparr>)))
   \<and> chat_step Submit (chat_sys_init\<lparr>panel := chat_init\<lparr>input := js_string ''  ''\<rparr>\<rparr>)
       = chat_sys_init\<lparr>panel := chat_init\<lparr>input := js_string ''  ''\<rparr>\<rparr>
   \<and> chat_step Submit (chat_sys_init\<lparr>panel := chat_init\<lparr>input := [0x00A0]\<rparr>\<rparr>)
       = chat_sys_init\<lparr>panel := chat_init\<lparr>input := [0x00A0]\<rparr>\<rparr>
   \<and> (trim (input (panel (chat_sys_init
          \<lparr>panel := chat_init\<lparr>input := js_string ''hi'', loading := True\<rparr>\<rparr>))) = []
      \<or> loading (panel (chat_sys_init
          \<lparr>panel := chat_init\<lparr>input := js_string ''hi'', loading := True\<rparr>\<rparr>)))
   \<and> chat_step Submit (chat_sys_init
          \<lparr>panel := chat_init\<lparr>input := js_string ''hi'', loading := True\<rparr>\<rparr>)
       = chat_sys_init\<lparr>panel := chat_init\<lparr>input := js_string ''hi'', loading := True\<rparr>\<rparr>"
  using blank_or_busy_submit_is_ignored
      [of "chat_sys_init\<lparr>panel := chat_init\<lparr>input := js_string ''  ''\<rparr>\<rparr>"]
    blank_or_busy_submit_is_ignored
      [of "chat_sys_init\<lparr>panel := chat_init\<lparr>input := [0x00A0]\<rparr>\<rparr>"]
    blank_or_busy_submit_is_ignored
      [of "chat_sys_init\<lparr>panel := chat_init\<lparr>input := js_string ''hi'', loading := True\<rparr>\<rparr>"]
  by (simp add: trim_blank trim_nbsp chat_init_def)

subsection \<open>The stored session id\<close>

lemma handleNewChat_resets: "sessionId (handleNewChat st) = JNull"
  by (simp add: handleNewChat_def)

lemma askQuestion_payload_falsy:
  "\<not> truthy sid \<Longrightarrow> session_id (askQuestion_payload q sid) = None"
  by (simp add: askQuestion_payload_def)

lemma askQuestion_payload_truthy:
  "truthy sid \<Longrightarrow> session_id (askQuestion_payload q sid) = Some sid"
  by (simp add: askQuestion_payload_def)

lemma fulfilled_stores_session:
  "sessionId (handleSubmit_resume (Inr r) st) = response_session_id r"
  by (simp add: handleSubmit_resume_fulfilled)

lemma rejected_keeps_session:
  "sessionId (handleSubmit_resume (Inl e) st) = sessionId st"
  by (simp add: handleSubmit_resume_rejected)

text \<open>
  With no request in flight, the ask that follows New Chat carries no session id.
\<close>

lemma quiet_new_chat_then_ask:
  assumes "\<not> loading (panel s)" and "trim v \<noteq> []"
  shows "sent (chat_run [NewChat, Change v, Submit] s)
           = sent s @ [\<lparr>question = trim v, session_id = None, top_k = None\<rparr>]"
  using assms
  by (simp add: chat_run_def handleNewChat_def setInput_def handleSubmit_begin_def Let_def
      askQuestion_payload_def)

lemma trim_q1: "trim (js_string ''q1'') = js_string ''q1''"
  by (simp add: trim_def is_space_def js_string_def)

lemma trim_q2: "trim (js_string ''q2'') = js_string ''q2''"
  by (simp add: trim_def is_space_def js_string_def)

lemma js_string_q_nonempty: "js_string ''q1'' \<noteq> []" "js_string ''q2'' \<noteq> []"
  by (simp_all add: js_string_def)

text \<open>
  C5: New Chat while a query is in flight. The first ask goes out without a session id;
  New Chat resets the stored id; the response of the first ask then arrives and stores its
  session id \<open>s1\<close>; the next ask, the first one after New Chat, carries \<open>s1\<close>.
\<close>

theorem new_chat_during_query_keeps_old_session:
  "sent (chat_run
      [Change (js_string ''q1''), Submit, NewChat,
       Settle (Inr \<lparr>answer = js_string ''a1'', response_session_id = JStr ''s1'',
                    response_sources = []\<rparr>),
       Change (js_string ''q2''), Submit] chat_sys_init)
   = [\<lparr>question = js_string ''q1'', session_id = None, top_k = None\<rparr>,
      \<lparr>question = js_string ''q2'', session_id = Some (JStr ''s1''), top_k = None\<rparr>]
   \<and> sessionId (panel (chat_run [Change (js_string ''q1''), Submit, NewChat] chat_sys_init))
       = JNull"
  by (simp add: chat_run_def chat_sys_init_def chat_init_def setInput_def handleSubmit_begin_def
      handleNewChat_def handleSubmit_resume_def askQuestion_payload_def trim_q1 trim_q2
      js_string_q_nonempty user_message_def assistant_message_def Let_def)

section \<open>Properties of the health state\<close>

text \<open>
  C8: whatever \<^verbatim>\<open>checkHealth()\<close> settles to, the promise chain of the effect is fulfilled,
  never rejected, and the health state holds an object: the service's answer on success, and
  on failure the fallback whose \<open>ollama_available\<close> is \<open>False\<close>, which the status bar reads
  as disconnected.
\<close>

theorem health_failure_becomes_flag:
  "fst (App_useEffect outcome h) = Inr ()
   \<and> (case outcome of
        Inl e \<Rightarrow> snd (App_useEffect outcome h) = Some health_fallback
                 \<and> ollama_available health_fallback = False
                 \<and> \<not> ollamaStatus (snd (App_useEffect outcome h))
      | Inr v \<Rightarrow> snd (App_useEffect outcome h) = Some v)"
  by (cases outcome)
     (simp_all add: App_useEffect_def promise_then_def promise_catch_def setHealth_def
       health_fallback_def ollamaStatus_def)

theorem health_failure_becomes_flag_witness:
  "App_useEffect (Inl NetworkError) None = (Inr (), Some health_fallback)
   \<and> App_useEffect
        (Inr \<lparr>status = ''ok'', ollama_available = True, available_models = Some [''llama3.2'']\<rparr>)
        None
       = (Inr (), Some \<lparr>status = ''ok'', ollama_available = True,
                         available_models = Some [''llama3.2'']\<rparr>)"
  using health_failure_becomes_flag [of "Inl NetworkError" None]
    health_failure_becomes_flag
      [of "Inr \<lparr>status = ''ok'', ollama_available = True,
                 available_models = Some [''llama3.2'']\<rparr>" None]
  by (simp add: prod_eq_iff)

section \<open>Properties of the two client modules\<close>

lemma same_method:
  "http_method (api_request op) = http_method (services_request env op)"
  by (cases op)
     (simp_all add: api_uploadDocument_def uploadDocument_def api_getDocuments_def
       listDocuments_def api_deleteDocument_def deleteDocument_def api_query_def
       askQuestion_def api_healthCheck_def checkHealth_def)

lemma same_endpoint_list_query_health:
  "same_endpoint (api_request OpList) (services_request env OpList)"
  "same_endpoint (api_request (OpQuery q)) (services_request env (OpQuery q))"
  "same_endpoint (api_request OpHealth) (services_request env OpHealth)"
  by (simp_all add: api_getDocuments_def listDocuments_def api_query_def askQuestion_def
      api_healthCheck_def checkHealth_def same_endpoint_def strip_slash_def)

lemma same_endpoint_delete:
  "i \<noteq> [] \<Longrightarrow> last i \<noteq> CHR ''/'' \<Longrightarrow>
   same_endpoint (api_request (OpDelete i)) (services_request env (OpDelete i))"
  by (simp add: api_deleteDocument_def deleteDocument_def same_endpoint_def strip_slash_def)

lemma upload_paths_differ:
  "\<not> same_endpoint (api_request (OpUpload f)) (services_request env (OpUpload f))"
  by (simp add: api_uploadDocument_def uploadDocument_def same_endpoint_def strip_slash_def)

text \<open>
  C6: the upload of a file. Both modules use POST, but src/api.js posts to
  \<^verbatim>\<open>/documents/upload\<close> and src/services/api.js to \<^verbatim>\<open>/documents/\<close>: the two paths
  differ, also when trailing slashes are ignored.
\<close>

theorem upload_endpoints_of_the_modules_differ:
  "http_method (api_uploadDocument \<lparr>name = ''a.pdf'', byte_size = 1\<rparr>) = POST
   \<and> http_method (uploadDocument None \<lparr>name = ''a.pdf'', byte_size = 1\<rparr>) = POST
   \<and> path (api_uploadDocument \<lparr>name = ''a.pdf'', byte_size = 1\<rparr>) = ''/documents/upload''
   \<and> path (uploadDocument None \<lparr>name = ''a.pdf'', byte_size = 1\<rparr>) = ''/documents/''
   \<and> \<not> same_endpoint (api_uploadDocument \<lparr>name = ''a.pdf'', byte_size = 1\<rparr>)
                        (uploadDocument None \<lparr>name = ''a.pdf'', byte_size = 1\<rparr>)"
  by (simp add: api_uploadDocument_def uploadDocument_def same_endpoint_def strip_slash_def)

section \<open>Properties of the query's \<open>top_k\<close>\<close>

lemma length_search: "length (search sim index k) \<le> nat k"
  by (simp add: search_def)

text \<open>
  C7: a query whose caller gives no \<open>top_k\<close>. \<^verbatim>\<open>api.query\<close> fills in the default and sends
  \<open>top_k = 3\<close>; \<^verbatim>\<open>askQuestion\<close> sends no \<open>top_k\<close> key and the service applies its default
  3. In both cases retrieval yields at most 3 chunks.
\<close>

theorem unspecified_top_k_is_three:
  "body (api_query q None) = Json \<lparr>question = q, session_id = None, top_k = Some 3\<rparr>
   \<and> length (retrieve sim index \<lparr>question = q, session_id = None, top_k = Some 3\<rparr>) \<le> 3
   \<and> body (askQuestion env q sid) = Json (askQuestion_payload q sid)
   \<and> top_k (askQuestion_payload q sid) = None
   \<and> retrieve sim index (askQuestion_payload q sid) = search sim index 3
   \<and> length (retrieve sim index (askQuestion_payload q sid)) \<le> 3"
  using length_search [of sim index 3]
  by (simp add: api_query_def askQuestion_def askQuestion_payload_def retrieve_def
      default_top_k_def)

theorem unspecified_top_k_is_three_witness:
  "body (api_query (js_string ''why?'') None)
     = Json \<lparr>question = js_string ''why?'', session_id = None, top_k = Some 3\<rparr>
   \<and> top_k (askQuestion_payload (js_string ''why?'') JNull) = None
   \<and> length (retrieve (\<lambda>c. 1) [] (askQuestion_payload (js_string ''why?'') JNull)) \<le> 3"
  using unspecified_top_k_is_three [of "js_string ''why?''" "\<lambda>c. 1" "[]" None JNull]
  by blast

section \<open>Properties of the document panel\<close>

subsection \<open>One pass of the loop body\<close>

lemma upload_body_rejected:
  "\<not> is_pdf_name (name f) \<Longrightarrow>
   upload_body srv f s = s\<lparr>panel_error := Some ''Only PDF files are supported''\<rparr>"
  by (simp add: upload_body_def)

lemma upload_body_failed:
  "is_pdf_name (name f) \<Longrightarrow> fst (post_document srv f (server t)) = Inl e \<Longrightarrow>
   panel_error (upload_body srv f t) = Some (''Failed to upload '' @ name f)"
  by (cases "post_document srv f (server t)") (auto simp: upload_body_def)

lemma requests_upload_body:
  "requests (upload_body srv f s) =
     requests s @ (if is_pdf_name (name f) then [UploadDocument f] else [])"
  by (simp add: upload_body_def split: prod.splits sum.splits)

lemma server_upload_body:
  "server (upload_body srv f s) =
     (if is_pdf_name (name f) then snd (post_document srv f (server s)) else server s)"
  by (simp add: upload_body_def split: prod.splits sum.splits)

lemma documents_upload_body: "documents (upload_body srv f s) = documents s"
  by (simp add: upload_body_def split: prod.splits sum.splits)

subsection \<open>The loop and the refetch\<close>

lemma requests_upload_loop:
  "requests (upload_loop srv fs s) =
     requests s @ map UploadDocument (filter (\<lambda>f. is_pdf_name (name f)) fs)"
  by (induction fs arbitrary: s) (simp_all add: requests_upload_body)

lemma server_upload_loop:
  "server (upload_loop srv fs s) =
     fold (\<lambda>f b. snd (post_document srv f b)) (filter (\<lambda>f. is_pdf_name (name f)) fs) (server s)"
  by (induction fs arbitrary: s) (simp_all add: server_upload_body)

lemma documents_upload_loop: "documents (upload_loop srv fs s) = documents s"
  by (induction fs arbitrary: s) (simp_all add: documents_upload_body)

lemma requests_fetchDocuments:
  "requests (fetchDocuments srv s) = requests s @ [ListDocuments]"
  by (simp add: fetchDocuments_def split: prod.splits sum.splits)

lemma server_fetchDocuments:
  "server (fetchDocuments srv s) = snd (get_documents srv (server s))"
  by (simp add: fetchDocuments_def split: prod.splits sum.splits)

lemma documents_fetchDocuments:
  "documents (fetchDocuments srv s) =
     (case fst (get_documents srv (server s)) of Inr ds \<Rightarrow> ds | Inl e \<Rightarrow> documents s)"
  by (simp add: fetchDocuments_def split: prod.splits sum.splits)

lemma requests_handleUpload:
  "requests (handleUpload srv fs s) =
     requests s @ map UploadDocument (filter (\<lambda>f. is_pdf_name (name f)) fs) @ [ListDocuments]"
  by (simp add: handleUpload_def requests_fetchDocuments requests_upload_loop)

lemma server_handleUpload:
  "server (handleUpload srv fs s) =
     snd (get_documents srv
       (fold (\<lambda>f b. snd (post_document srv f b))
          (filter (\<lambda>f. is_pdf_name (name f)) fs) (server s)))"
  by (simp add: handleUpload_def server_fetchDocuments server_upload_loop)

lemma documents_handleUpload:
  "documents (handleUpload srv fs s) =
     (case fst (get_documents srv
         (fold (\<lambda>f b. snd (post_document srv f b))
            (filter (\<lambda>f. is_pdf_name (name f)) fs) (server s))) of
        Inr ds \<Rightarrow> ds | Inl e \<Rightarrow> documents s)"
  by (simp add: handleUpload_def documents_fetchDocuments server_upload_loop
      documents_upload_loop split: sum.splits)





subsection \<open>Concrete files\<close>

lemma notes_txt_not_pdf: "\<not> is_pdf_name ''notes.txt''"
  by code_simp


lemma big_pdf_is_pdf: "is_pdf_name ''big.pdf''"
  by code_simp

lemma big_is_oversize: "max_upload_bytes < 60000000"
  by (simp add: max_upload_bytes_def)

text \<open>
  C2: a file whose name does not end in \<^verbatim>\<open>.pdf\<close> (compared in lower case) is skipped by
  the loop before \<^verbatim>\<open>uploadDocument\<close> is called: the pass only sets the error text, no upload
  request for the file is among the requests the handler issues, and the service's state and
  the refetched document list are the ones obtained when the file is left out of the list.
\<close>

theorem non_pdf_file_is_never_uploaded:
  assumes "\<not> is_pdf_name (name f)"
  shows "upload_body srv f s = s\<lparr>panel_error := Some ''Only PDF files are supported''\<rparr>
       \<and> UploadDocument f \<notin> set (drop (length (requests s)) (requests (handleUpload srv fs s)))
       \<and> server (handleUpload srv (xs @ f # ys) s) = server (handleUpload srv (xs @ ys) s)
       \<and> documents (handleUpload srv (xs @ f # ys) s)
           = documents (handleUpload srv (xs @ ys) s)"
  using assms
  by (auto simp: upload_body_rejected requests_handleUpload server_handleUpload
      documents_handleUpload)

theorem non_pdf_file_is_never_uploaded_witness:
  "\<not> is_pdf_name (name \<lparr>name = ''notes.txt'', byte_size = 10\<rparr>)
   \<and> upload_body example_backend \<lparr>name = ''notes.txt'', byte_size = 10\<rparr> (doc_sys_init [])
       = (doc_sys_init [])\<lparr>panel_error := Some ''Only PDF files are supported''\<rparr>
   \<and> requests (handleUpload example_backend [\<lparr>name = ''notes.txt'', byte_size = 10\<rparr>]
         (doc_sys_init [])) = [ListDocuments]
   \<and> server (handleUpload example_backend
         ([\<lparr>name = ''Report.PDF'', byte_size = 20\<rparr>]
            @ \<lparr>name = ''notes.txt'', byte_size = 10\<rparr> # []) (doc_sys_init []))
       = server (handleUpload example_backend
         ([\<lparr>name = ''Report.PDF'', byte_size = 20\<rparr>] @ []) (doc_sys_init []))"
proof -
  have sent: "requests (handleUpload example_backend [\<lparr>name = ''notes.txt'', byte_size = 10\<rparr>]
         (doc_sys_init [])) = [ListDocuments]"
    by (simp add: requests_handleUpload notes_txt_not_pdf doc_sys_init_def)
  from non_pdf_file_is_never_uploaded
    [where f = "\<lparr>name = ''notes.txt'', byte_size = 10\<rparr>" and srv = example_backend
       and s = "doc_sys_init []" and fs = "[\<lparr>name = ''notes.txt'', byte_size = 10\<rparr>]"
       and xs = "[\<lparr>name = ''Report.PDF'', byte_size = 20\<rparr>]" and ys = "[]"]
    sent
  show ?thesis by (simp add: notes_txt_not_pdf)
qed



subsection \<open>The panel against the specified upload endpoint\<close>

lemma upload_endpoint_oversize:
  "max_bytes < byte_size f \<Longrightarrow> upload_endpoint max_bytes f st = (Inl (HttpError 400), st)"
  by (simp add: upload_endpoint_def)

lemma upload_endpoint_docs:
  "d \<in> set (docs (snd (upload_endpoint m f st))) \<Longrightarrow>
   d \<in> set (docs st) \<or> (file_size d = byte_size f \<and> byte_size f \<le> m)"
  by (auto simp: upload_endpoint_def createPending_def Let_def split: if_splits)

lemma fold_upload_endpoint_docs:
  "d \<in> set (docs (fold (\<lambda>f b. snd (upload_endpoint m f b)) fs st)) \<Longrightarrow>
   d \<in> set (docs st) \<or> file_size d \<le> m"
proof (induction fs arbitrary: st)
  case Nil
  then show ?case by simp
next
  case (Cons f fs)
  from Cons.IH [OF Cons.prems [simplified]]
  show ?case using upload_endpoint_docs [of d m f st] by auto
qed

text \<open>
  C3: a file larger than the configured maximum of 50 MB. The upload endpoint answers it
  with a client error and leaves the store of Document records as it was. The panel itself
  checks no size: for a \<^verbatim>\<open>.pdf\<close> name it issues the request and shows the failure. After an
  upload action on any list of files, every Document record of that size was in the store
  before.
\<close>

theorem oversize_upload_is_rejected_before_any_record:
  assumes "max_upload_bytes < byte_size f"
  shows "post_document spec_backend f st = (Inl (HttpError 400), st)
       \<and> is_client_error (HttpError 400)
       \<and> server (upload_body spec_backend f s) = server s
       \<and> (is_pdf_name (name f) \<longrightarrow>
            requests (upload_body spec_backend f s) = requests s @ [UploadDocument f]
            \<and> panel_error (upload_body spec_backend f s) = Some (''Failed to upload '' @ name f))
       \<and> (\<forall>d \<in> set (docs (server (handleUpload spec_backend fs s))).
            file_size d = byte_size f \<longrightarrow> d \<in> set (docs (server s)))"
proof -
  have a: "post_document spec_backend f st = (Inl (HttpError 400), st)" for st
    using assms by (simp add: spec_backend_def upload_endpoint_oversize)
  have b: "server (upload_body spec_backend f s) = server s"
    by (simp add: server_upload_body a)
  have c: "d \<in> set (docs (server s))"
    if "d \<in> set (docs (server (handleUpload spec_backend fs s)))"
      and "file_size d = byte_size f" for d
  proof -
    from that(1)
    have "d \<in> set (docs (fold (\<lambda>f b. snd (upload_endpoint max_upload_bytes f b))
          (filter (\<lambda>f. is_pdf_name (name f)) fs) (server s)))"
      by (simp add: server_handleUpload spec_backend_def list_endpoint_def)
    from fold_upload_endpoint_docs [OF this] that(2) assms show ?thesis by simp
  qed
  have d: "panel_error (upload_body spec_backend f s) = Some (''Failed to upload '' @ name f)"
    if "is_pdf_name (name f)"
    using that by (simp add: upload_body_failed a)
  show ?thesis using a b c d by (simp add: is_client_error_def requests_upload_body)
qed

theorem oversize_upload_is_rejected_before_any_record_witness:
  "max_upload_bytes < byte_size \<lparr>name = ''big.pdf'', byte_size = 60000000\<rparr>
   \<and> post_document spec_backend \<lparr>name = ''big.pdf'', byte_size = 60000000\<rparr> empty_store
       = (Inl (HttpError 400), empty_store)
   \<and> server (upload_body spec_backend \<lparr>name = ''big.pdf'', byte_size = 60000000\<rparr>
        (doc_sys_init empty_store)) = empty_store
   \<and> requests (upload_body spec_backend \<lparr>name = ''big.pdf'', byte_size = 60000000\<rparr>
        (doc_sys_init empty_store))
       = [UploadDocument \<lparr>name = ''big.pdf'', byte_size = 60000000\<rparr>]
   \<and> filter (\<lambda>d. file_size d = 60000000)
        (docs (server (handleUpload spec_backend
              [\<lparr>name = ''big.pdf'', byte_size = 60000000\<rparr>,
               \<lparr>name = ''Report.PDF'', byte_size = 20\<rparr>] (doc_sys_init empty_store))))
       = []"
  using oversize_upload_is_rejected_before_any_record
    [where f = "\<lparr>name = ''big.pdf'', byte_size = 60000000\<rparr>" and st = empty_store
       and s = "doc_sys_init empty_store"
       and fs = "[\<lparr>name = ''big.pdf'', byte_size = 60000000\<rparr>,
                  \<lparr>name = ''Report.PDF'', byte_size = 20\<rparr>]"]
  by (auto simp: big_is_oversize big_pdf_is_pdf doc_sys_init_def empty_store_def
      filter_empty_conv)

end
